theory Spec2Isabelle
  imports Main "HOL-Library.Char_ord"
begin

section \<open>JavaScript values\<close>

text \<open>
  The values the \<^verbatim>\<open>Test\<close> class of \<^verbatim>\<open>src/unnamed/part_000\<close> handles that are not
  functions. Numbers are the integral ones (status codes, ports); \<^verbatim>\<open>NaN\<close> and fractions
  are outside the model. A regular expression carries its source, its flags and what its
  built-in \<^verbatim>\<open>test\<close> method answers on a string (the \<^verbatim>\<open>lastIndex\<close> state of a global
  pattern is outside the model). An \<^verbatim>\<open>Error\<close> instance carries its name, its message and
  the three properties the function \<^verbatim>\<open>error\<close> may add; \<open>None\<close> is a property that was
  never set.
\<close>

datatype jsval =
    Undefined
  | Null
  | Boolean bool
  | Number int
  | String string
  | RegExp (source: string) (flags: string) (test: "string \<Rightarrow> bool")
  | Object "(string \<times> jsval) list"
  | Array "jsval list"
  | Error (name: string) (message: string)
      (expected: "jsval option") (actual: "jsval option") (showDiff: "jsval option")

text \<open>\<^verbatim>\<open>x instanceof Error\<close> and \<^verbatim>\<open>x instanceof RegExp\<close>.\<close>

fun instanceof_Error :: "jsval \<Rightarrow> bool" where
  "instanceof_Error (Error n m e a d) = True"
| "instanceof_Error v = False"

fun instanceof_RegExp :: "jsval \<Rightarrow> bool" where
  "instanceof_RegExp (RegExp src fl t) = True"
| "instanceof_RegExp v = False"

text \<open>The truth value of \<^verbatim>\<open>!x\<close>, \<^verbatim>\<open>x && y\<close> and \<^verbatim>\<open>x || y\<close>.\<close>

fun truthy :: "jsval \<Rightarrow> bool" where
  "truthy Undefined = False"
| "truthy Null = False"
| "truthy (Boolean b) = b"
| "truthy (Number n) = (n \<noteq> 0)"
| "truthy (String s) = (s \<noteq> [])"
| "truthy v = True"

text \<open>\<^verbatim>\<open>typeof x\<close> for a value that is not a function.\<close>

fun typeof :: "jsval \<Rightarrow> string" where
  "typeof Undefined = ''undefined''"
| "typeof (Boolean b) = ''boolean''"
| "typeof (Number n) = ''number''"
| "typeof (String s) = ''string''"
| "typeof v = ''object''"

text \<open>Decimal rendering of a number, as a template literal or \<^verbatim>\<open>"" + n\<close> gives it.\<close>

definition digit_char :: "nat \<Rightarrow> char" where
  "digit_char d = char_of (of_char (CHR ''0'') + d)"

fun show_nat :: "nat \<Rightarrow> string" where
  "show_nat n = (if n < 10 then [digit_char n] else show_nat (n div 10) @ [digit_char (n mod 10)])"

definition show_int :: "int \<Rightarrow> string" where
  "show_int i = (if i < 0 then ''-'' @ show_nat (nat (- i)) else show_nat (nat i))"

text \<open>\<^verbatim>\<open>Array.prototype.join(",")\<close> on strings.\<close>

fun join_comma :: "string list \<Rightarrow> string" where
  "join_comma [] = []"
| "join_comma [x] = x"
| "join_comma (x # y # ys) = x @ '','' @ join_comma (y # ys)"

text \<open>
  String conversion (\<^verbatim>\<open>"" + x\<close>, \<^verbatim>\<open>`${x}`\<close>) with the built-in \<^verbatim>\<open>toString\<close> methods:
  an array joins its elements with a comma, \<^verbatim>\<open>null\<close> and \<^verbatim>\<open>undefined\<close> elements being
  empty; a plain object is \<^verbatim>\<open>[object Object]\<close>.
\<close>

fun to_string :: "jsval \<Rightarrow> string" where
  "to_string Undefined = ''undefined''"
| "to_string Null = ''null''"
| "to_string (Boolean b) = (if b then ''true'' else ''false'')"
| "to_string (Number n) = show_int n"
| "to_string (String s) = s"
| "to_string (RegExp src fl t) = ''/'' @ src @ ''/'' @ fl"
| "to_string (Object ps) = ''[object Object]''"
| "to_string (Array xs) =
     join_comma (map (\<lambda>x. if x = Undefined \<or> x = Null then [] else to_string x) xs)"
| "to_string (Error n m e a d) =
     (if n = [] then m else if m = [] then n else n @ '': '' @ m)"

text \<open>\<^verbatim>\<open>String.prototype.toLowerCase\<close> and \<^verbatim>\<open>toUpperCase\<close> on ASCII letters.\<close>

definition lower_char :: "char \<Rightarrow> char" where
  "lower_char c =
     (if CHR ''A'' \<le> c \<and> c \<le> CHR ''Z'' then char_of (of_char c + (32::nat)) else c)"

definition upper_char :: "char \<Rightarrow> char" where
  "upper_char c =
     (if CHR ''a'' \<le> c \<and> c \<le> CHR ''z'' then char_of (of_char c - (32::nat)) else c)"

definition toLowerCase :: "string \<Rightarrow> string" where
  "toLowerCase s = map lower_char s"

definition toUpperCase :: "string \<Rightarrow> string" where
  "toUpperCase s = map upper_char s"

section \<open>Responses, functions and the imported library\<close>

text \<open>
  A header value of a response is a string or a list of strings. The response object of
  the underlying client, with the four properties the assertions read.
\<close>

datatype header_value = HString string | HArray "string list"

record response =
  status :: int
  headers :: "string \<rightharpoonup> header_value"
  res_text :: "string option"
  body :: jsval

text \<open>
  A call of a function of the caller either returns a value or throws one, and may change
  the caller's own state \<open>'s\<close> (a counter of invocations, a log). It is called with a list
  of arguments, each a value or a response object.
\<close>

datatype outcome = Return jsval | Throw jsval

datatype callarg = ArgVal jsval | ArgRes response

type_synonym 's jsfun = "callarg list \<Rightarrow> 's \<Rightarrow> outcome \<times> 's"

text \<open>The argument that stands for \<^verbatim>\<open>res\<close>: the response, or \<^verbatim>\<open>undefined\<close>.\<close>

definition res_arg :: "response option \<Rightarrow> callarg" where
  "res_arg res = (case res of None \<Rightarrow> ArgVal Undefined | Some r \<Rightarrow> ArgRes r)"

text \<open>
  An entry of \<^verbatim>\<open>#asserts\<close> is a function called as \<^verbatim>\<open>fn(res)\<close>.
\<close>

type_synonym 's checker = "response option \<Rightarrow> 's \<Rightarrow> outcome \<times> 's"

definition call1 :: "'s jsfun \<Rightarrow> 's checker" where
  "call1 f res s = f [res_arg res] s"

text \<open>
  What \<^verbatim>\<open>deps.ts\<close> provides and the class only uses: the table \<^verbatim>\<open>STATUS_TEXT\<close>,
  \<^verbatim>\<open>util.inspect\<close>, and \<^verbatim>\<open>assertEquals\<close> (\<open>True\<close> when it returns, \<open>False\<close> when it
  throws). They are parameters of the model.
\<close>

record deps =
  STATUS_TEXT :: "int \<rightharpoonup> string"
  inspect :: "jsval \<Rightarrow> string"
  assertEquals :: "jsval \<Rightarrow> jsval \<Rightarrow> bool"

text \<open>
  Reading a property of \<^verbatim>\<open>undefined\<close> throws a \<^verbatim>\<open>TypeError\<close>, which is an \<^verbatim>\<open>Error\<close>
  instance; its message is the engine's.
\<close>

definition type_error :: "string \<Rightarrow> jsval" where
  "type_error prop =
     Error ''TypeError'' (''Cannot read property '' @ [CHR 0x27] @ prop @ [CHR 0x27] @ '' of undefined'')
       None None None"

section \<open>The assertions\<close>

text \<open>\<^verbatim>\<open>new Error(msg)\<close>, and the function \<^verbatim>\<open>error(msg, expected, actual)\<close> (lines 548-556).\<close>

definition new_Error :: "string \<Rightarrow> jsval" where
  "new_Error msg = Error ''Error'' msg None None None"

definition error :: "string \<Rightarrow> jsval \<Rightarrow> jsval \<Rightarrow> jsval" where
  "error msg exp act = Error ''Error'' msg (Some exp) (Some act) (Some (Boolean True))"

text \<open>\<^verbatim>\<open>`${STATUS_TEXT.get(n)}`\<close>: the reason phrase, or \<^verbatim>\<open>undefined\<close> rendered.\<close>

definition status_text :: "deps \<Rightarrow> int \<Rightarrow> string" where
  "status_text d n = (case STATUS_TEXT d n of None \<Rightarrow> ''undefined'' | Some s \<Rightarrow> s)"

text \<open>\<^verbatim>\<open>#assertStatus\<close> (lines 507-514).\<close>

definition assertStatus :: "deps \<Rightarrow> int \<Rightarrow> response option \<Rightarrow> outcome" where
  "assertStatus d st res =
     (case res of
        None \<Rightarrow> Throw (type_error ''status'')
      | Some r \<Rightarrow>
          if status r \<noteq> st then
            Return (new_Error (''expected '' @ show_int st @ '' \"'' @ status_text d st
              @ ''\", got '' @ show_int (status r) @ '' \"'' @ status_text d (status r) @ ''\"''))
          else Return Undefined)"

text \<open>
  \<^verbatim>\<open>body !== res.text\<close>: the text is a string or \<^verbatim>\<open>undefined\<close>, so the two are
  identical only when both are \<^verbatim>\<open>undefined\<close> or both the same string.
\<close>

definition text_identical :: "jsval \<Rightarrow> string option \<Rightarrow> bool" where
  "text_identical b t =
     (case t of None \<Rightarrow> b = Undefined | Some s \<Rightarrow> b = String s)"

definition text_val :: "string option \<Rightarrow> jsval" where
  "text_val t = (case t of None \<Rightarrow> Undefined | Some s \<Rightarrow> String s)"

text \<open>
  \<^verbatim>\<open>#assertBody\<close> (lines 418-457). With no response, reading \<^verbatim>\<open>res.body\<close> in the
  \<^verbatim>\<open>try\<close> block throws, and so does the \<^verbatim>\<open>catch\<close> block when it reads it again;
  reading \<^verbatim>\<open>res.text\<close> throws in the other branch.
\<close>

definition assertBody :: "deps \<Rightarrow> jsval \<Rightarrow> response option \<Rightarrow> outcome" where
  "assertBody d b res =
     (let isregexp = instanceof_RegExp b in
      if typeof b = ''object'' \<and> \<not> isregexp then
        (case res of
           None \<Rightarrow> Throw (type_error ''body'')
         | Some r \<Rightarrow>
             if assertEquals d b (body r) then Return Undefined
             else Return (error (''expected '' @ inspect d b @ '' response body, got ''
                                   @ inspect d (body r)) b (body r)))
      else
        (case res of
           None \<Rightarrow> Throw (type_error ''text'')
         | Some r \<Rightarrow>
             if \<not> text_identical b (res_text r) then
               (if isregexp then
                  (if \<not> test b (to_string (text_val (res_text r))) then
                     Return (error (''expected body '' @ inspect d (text_val (res_text r))
                                      @ '' to match '' @ to_string b) b (body r))
                   else Return Undefined)
                else
                  Return (error (''expected '' @ inspect d b @ '' response body, got ''
                                   @ inspect d (text_val (res_text r))) b (body r)))
             else Return Undefined))"

text \<open>
  \<^verbatim>\<open>#assertHeader\<close> (lines 468-496), bound to \<^verbatim>\<open>{ name, value }\<close>. The actual value
  converts to a string as an array or a string does.
\<close>

fun header_string :: "header_value \<Rightarrow> string" where
  "header_string (HString s) = s"
| "header_string (HArray xs) = join_comma xs"

fun isArray :: "header_value \<Rightarrow> bool" where
  "isArray (HArray xs) = True"
| "isArray (HString s) = False"

text \<open>\<^verbatim>\<open>fieldExpected === actual\<close>: only a string is identical to a string.\<close>

fun header_identical :: "jsval \<Rightarrow> header_value \<Rightarrow> bool" where
  "header_identical (String e) (HString s) = (e = s)"
| "header_identical v a = False"

definition assertHeader :: "string \<Rightarrow> jsval \<Rightarrow> response option \<Rightarrow> outcome" where
  "assertHeader field fieldExpected res =
     (case res of
        None \<Rightarrow> Throw (type_error ''headers'')
      | Some r \<Rightarrow>
          (case headers r (toLowerCase field) of
             None \<Rightarrow> Return (new_Error (''expected \"'' @ field @ ''\" header field''))
           | Some act \<Rightarrow>
               if (isArray act \<and> String (header_string act) = fieldExpected)
                  \<or> header_identical fieldExpected act
               then Return Undefined
               else if instanceof_RegExp fieldExpected then
                 (if \<not> test fieldExpected (header_string act) then
                    Return (new_Error (''expected \"'' @ field @ ''\" matching ''
                      @ to_string fieldExpected @ '', got \"'' @ header_string act @ ''\"''))
                  else Return Undefined)
               else
                 Return (new_Error (''expected \"'' @ field @ ''\" of \"''
                   @ to_string fieldExpected @ ''\", got \"'' @ header_string act @ ''\"''))))"

text \<open>
  \<^verbatim>\<open>#assertFunction\<close> (lines 525-535): the value returned or the value thrown is the
  error when it is an \<^verbatim>\<open>Error\<close> instance, and the result is \<^verbatim>\<open>undefined\<close> otherwise.
\<close>

definition assertFunction :: "'s checker \<Rightarrow> response option \<Rightarrow> 's \<Rightarrow> jsval \<times> 's" where
  "assertFunction fn res s =
     (case fn res s of
        (out, s') \<Rightarrow>
          (let err = (case out of Return v \<Rightarrow> v | Throw e \<Rightarrow> e)
           in (if instanceof_Error err then err else Undefined, s')))"

section \<open>Evaluating the pending assertions\<close>

text \<open>
  The loop of \<^verbatim>\<open>#assert\<close> (lines 398-400), from index \<open>i\<close> with the current value of
  \<^verbatim>\<open>error\<close>; it returns the index, the error and the caller's state it stops with.
\<close>

function assert_loop ::
  "'s checker list \<Rightarrow> response option \<Rightarrow> nat \<Rightarrow> jsval \<Rightarrow> 's \<Rightarrow> nat \<times> jsval \<times> 's" where
  "assert_loop as res i err s =
     (if i < length as \<and> \<not> truthy err then
        (case assertFunction (as ! i) res s of
           (err', s') \<Rightarrow> assert_loop as res (i + 1) err' s')
      else (i, err, s))"
  by pat_completeness auto
termination
  by (relation "measure (\<lambda>(as, res, i, err, s). length as - i)") auto

text \<open>
  \<^verbatim>\<open>#assert\<close> (lines 391-407) up to the call of \<^verbatim>\<open>fn\<close>: the value of
  \<^verbatim>\<open>error || null\<close> and the caller's state at line 406.
\<close>

definition assert_error ::
  "'s checker list \<Rightarrow> jsval \<Rightarrow> response option \<Rightarrow> 's \<Rightarrow> jsval \<times> 's" where
  "assert_error as resError res s =
     (let err0 = (if res = None \<and> truthy resError then resError else Undefined) in
      case assert_loop as res 0 err0 s of
        (i, err1, s') \<Rightarrow>
          (let err2 = (if \<not> truthy err1 \<and> truthy resError then resError else err1)
           in (if truthy err2 then err2 else Null, s')))"

text \<open>
  \<^verbatim>\<open>#assert\<close>: when there is a callback it is called with \<^verbatim>\<open>error || null\<close> and the
  response; what it returns or throws is not used.
\<close>

definition assert ::
  "'s checker list \<Rightarrow> jsval \<Rightarrow> response option \<Rightarrow> 's jsfun option \<Rightarrow> 's \<Rightarrow> 's" where
  "assert as resError res fn s =
     (case assert_error as resError res s of
        (e, s') \<Rightarrow>
          (case fn of
             None \<Rightarrow> s'
           | Some f \<Rightarrow> snd (f [ArgVal e, res_arg res] s')))"

section \<open>The request instance\<close>

text \<open>
  Modelled from the spec: the type tests \<^verbatim>\<open>isString\<close>, \<^verbatim>\<open>isServer\<close> and
  \<^verbatim>\<open>isListener\<close> of \<^verbatim>\<open>utils.ts\<close> and the types \<^verbatim>\<open>Server\<close> and \<^verbatim>\<open>Listener\<close> are
  not among the sources. The handle is one of an address string, a running server, a
  server factory that is not listening yet, or anything else; a test is a match on the
  variant. A server has the port of its bound address and can be closed, which acts on
  the caller's state and may throw; a factory answers \<^verbatim>\<open>listen({ port })\<close> with the server
  it starts.
\<close>

record 's Server =
  addr_port :: nat
  close_server :: "'s \<Rightarrow> outcome \<times> 's"

record 's Listener =
  listen :: "nat \<Rightarrow> 's Server"

datatype 's app =
    AppString string
  | AppServer "'s Server"
  | AppListener "'s Listener"
  | AppOther jsval

text \<open>
  The function \<^verbatim>\<open>end\<close> hands to the underlying client (lines 359-377) closes over the
  server, the handle and the callback.
\<close>

record 's handler =
  h_server :: "'s Server option"
  h_app :: "'s app"
  h_callback :: "'s jsfun option"

text \<open>
  The instance: the method and the redirect limit the superclass keeps, the public
  \<^verbatim>\<open>app\<close> and \<^verbatim>\<open>url\<close>, the private \<^verbatim>\<open>#asserts\<close> and \<^verbatim>\<open>#server\<close>, and the calls of
  \<^verbatim>\<open>SuperRequest.prototype.end\<close> made so far, each with the function it was given.
\<close>

record 's Test =
  req_method :: string
  maxRedirects :: nat
  app :: "'s app"
  url :: string
  asserts :: "'s checker list"
  server :: "'s Server option"
  superEnd :: "'s handler list"

text \<open>\<^verbatim>\<open>#serverAddress\<close> (lines 214-224), on the server \<^verbatim>\<open>#server\<close> holds.\<close>

definition serverAddress :: "'s Server \<Rightarrow> string \<Rightarrow> string option \<Rightarrow> bool \<Rightarrow> string" where
  "serverAddress srv path host secure =
     (let port = addr_port srv;
          protocol = (if secure then ''https'' else ''http'')
      in protocol @ ''://''
         @ (case host of None \<Rightarrow> ''127.0.0.1'' | Some h \<Rightarrow> if h = [] then ''127.0.0.1'' else h)
         @ '':'' @ show_nat port @ path)"

text \<open>
  The constructor (lines 173-202); \<open>Inl\<close> is the error it throws. The superclass
  constructor stores the method and the path as the URL, \<^verbatim>\<open>redirects(0)\<close> the limit.
\<close>

definition constructor ::
  "'s app \<Rightarrow> string \<Rightarrow> string \<Rightarrow> string option \<Rightarrow> bool option \<Rightarrow> jsval + 's Test" where
  "constructor a meth path host secure_arg =
     (let secure = (case secure_arg of None \<Rightarrow> False | Some b \<Rightarrow> b);
          t = \<lparr> req_method = toUpperCase meth, maxRedirects = 0, app = a, url = path,
                asserts = [], server = None, superEnd = [] \<rparr>
      in case a of
           AppString str \<Rightarrow> Inr (t\<lparr> url := str @ path \<rparr>)
         | AppServer srv \<Rightarrow>
             Inr (t\<lparr> server := Some srv, url := serverAddress srv path host secure \<rparr>)
         | AppListener l \<Rightarrow>
             (let secure = False; srv = listen l 0
              in Inr (t\<lparr> server := Some srv, url := serverAddress srv path host secure \<rparr>))
         | AppOther v \<Rightarrow>
             Inl (new_Error ''superdeno is unable to identify or create a valid test server''))"

text \<open>
  \<^verbatim>\<open>end\<close> (lines 351-381): one call of the underlying client's \<^verbatim>\<open>end\<close> with the
  function that closes over the server, the handle and the callback.
\<close>

definition Test_end :: "'s jsfun option \<Rightarrow> 's Test \<Rightarrow> 's Test" where
  "Test_end callback t =
     t\<lparr> superEnd := superEnd t
          @ [\<lparr> h_server = server t, h_app = app t, h_callback = callback \<rparr>] \<rparr>"

text \<open>
  \<^verbatim>\<open>expect\<close> (lines 309-340). The arguments are the list \<^verbatim>\<open>arguments\<close>, each a function
  or another value; a missing one reads as \<^verbatim>\<open>undefined\<close>. A bound private method is the
  method applied to its first argument.
\<close>

datatype 's arg = Fn "'s jsfun" | Val jsval

definition arg_at :: "'s arg list \<Rightarrow> nat \<Rightarrow> 's arg" where
  "arg_at args n = (if n < length args then args ! n else Val Undefined)"

definition bound :: "(response option \<Rightarrow> outcome) \<Rightarrow> 's checker" where
  "bound g res s = (g res, s)"

definition expect :: "deps \<Rightarrow> 's arg list \<Rightarrow> 's Test \<Rightarrow> 's Test" where
  "expect d args t =
     (let a = arg_at args 0; b = arg_at args 1; c = arg_at args 2 in
      case a of
        Fn f \<Rightarrow> t\<lparr> asserts := asserts t @ [call1 f] \<rparr>
      | Val va \<Rightarrow>
          (let t1 = (case b of Fn g \<Rightarrow> Test_end (Some g) t | Val vb \<Rightarrow> t);
               t2 = (case c of Fn g \<Rightarrow> Test_end (Some g) t1 | Val vc \<Rightarrow> t1)
           in case va of
                Number n \<Rightarrow>
                  (let t3 = t2\<lparr> asserts := asserts t2 @ [bound (assertStatus d n)] \<rparr>
                   in case b of
                        Fn g \<Rightarrow> t3
                      | Val vb \<Rightarrow>
                          if length args > 1
                          then t3\<lparr> asserts := asserts t3 @ [bound (assertBody d vb)] \<rparr>
                          else t3)
              | _ \<Rightarrow>
                  (case b of
                     Fn g \<Rightarrow> t2\<lparr> asserts := asserts t2 @ [bound (assertBody d va)] \<rparr>
                   | Val vb \<Rightarrow>
                       if typeof vb = ''string'' \<or> typeof vb = ''number'' \<or> instanceof_RegExp vb
                       then t2\<lparr> asserts := asserts t2
                                 @ [bound (assertHeader (to_string va) vb)] \<rparr>
                       else t2\<lparr> asserts := asserts t2 @ [bound (assertBody d va)] \<rparr>)))"

section \<open>Settlement\<close>

text \<open>
  Modelled from the spec: \<^verbatim>\<open>close\<close> of \<^verbatim>\<open>close.ts\<close> is not among the sources. The spec
  (4.1, \<^verbatim>\<open>closeIfOwned\<close>): a server this instance started itself is closed, a server
  that is externally owned is left untouched, and the continuation always runs, whether
  closing succeeded, failed or was a no-op. The instance started the server itself
  exactly when the handle is a factory.
\<close>

definition close ::
  "'s Server option \<Rightarrow> 's app \<Rightarrow> jsval \<Rightarrow> ('s \<Rightarrow> 's) \<Rightarrow> 's \<Rightarrow> 's" where
  "close srv a serverError callback s =
     (case a of
        AppListener l \<Rightarrow>
          (case srv of
             None \<Rightarrow> callback s
           | Some sv \<Rightarrow>
               (case close_server sv s of
                  (Return v, s') \<Rightarrow> callback s'
                | (Throw e, s') \<Rightarrow> callback s'))
      | _ \<Rightarrow> callback s)"

text \<open>
  The loop of lines 361-373 over the values of \<^verbatim>\<open>window._xhrSham.promises\<close>: an entry
  is a promise or a falsy value (\<open>None\<close>); awaiting a promise acts on the state and
  either gives its value or throws its rejection, which \<^verbatim>\<open>catch (_) {}\<close> drops.
\<close>

type_synonym 's promise = "'s \<Rightarrow> outcome \<times> 's"

fun drain :: "'s promise option list \<Rightarrow> 's \<Rightarrow> 's" where
  "drain [] s = s"
| "drain (p # ps) s =
     (case p of
        None \<Rightarrow> drain ps s
      | Some pr \<Rightarrow>
          (case pr s of
             (Return v, s') \<Rightarrow> drain ps s'
           | (Throw e, s') \<Rightarrow> drain ps s'))"

text \<open>
  The function \<^verbatim>\<open>end\<close> gave to the underlying client, called with \<^verbatim>\<open>(err, res)\<close> when
  the request settles (lines 359-377). \<open>promises\<close> reads \<^verbatim>\<open>window._xhrSham.promises\<close> in
  the state the loop starts in; \<open>self\<close> is the instance as it is then.
\<close>

definition settle ::
  "('s \<Rightarrow> 's promise option list) \<Rightarrow> 's handler \<Rightarrow> 's Test \<Rightarrow> jsval \<Rightarrow> response option
     \<Rightarrow> 's \<Rightarrow> 's" where
  "settle promises h self err res s =
     close (h_server h) (h_app h) Undefined
       (\<lambda>s1. assert (asserts self) err res (h_callback h) (drain (promises s1) s1)) s"

section \<open>Example data\<close>

text \<open>
  A library, a response and functions of a caller whose state is a counter of invocations
  and the list of arguments its callback received.
\<close>

definition example_deps :: deps where
  "example_deps = \<lparr> STATUS_TEXT = [200 \<mapsto> ''OK'', 404 \<mapsto> ''Not Found''],
                     inspect = to_string, assertEquals = (=) \<rparr>"

definition example_response :: response where
  "example_response =
     \<lparr> status = 200, headers = [''content-type'' \<mapsto> HString ''application/json''],
       res_text = Some ''hello world'', body = Object [(''a'', Number 1)] \<rparr>"

type_synonym example_state = "nat \<times> callarg list"

definition counting :: "jsval \<Rightarrow> example_state jsfun" where
  "counting v args st = (Return v, (Suc (fst st), snd st))"

definition throwing :: "jsval \<Rightarrow> example_state jsfun" where
  "throwing v args st = (Throw v, (Suc (fst st), snd st))"

definition reporting :: "example_state jsfun" where
  "reporting args st = (Return Undefined, (fst st, snd st @ args))"

definition not_found_response :: response where
  "not_found_response =
     \<lparr> status = 404, headers = [''set-cookie'' \<mapsto> HArray [''a=1'', ''b=2'']],
       res_text = Some ''goodbye'', body = Object [(''a'', Number 2)] \<rparr>"

definition example_test :: "example_state Test" where
  "example_test =
     \<lparr> req_method = ''GET'', maxRedirects = 0, app = AppString ''http://localhost:3000'',
       url = ''http://localhost:3000/user'', asserts = [], server = None, superEnd = [] \<rparr>"

definition example_server :: "example_state Server" where
  "example_server = \<lparr> addr_port = 4000, close_server = (\<lambda>st. (Return Undefined, st)) \<rparr>"

definition example_listener :: "example_state Listener" where
  "example_listener =
     \<lparr> listen = (\<lambda>p. \<lparr> addr_port = (if p = 0 then 49152 else p),
                          close_server = (\<lambda>st. (Return Undefined, st)) \<rparr>) \<rparr>"

text \<open>
  Collaborators whose state is a log: each call appends its name, so the final log is the
  order of the calls.
\<close>

definition logging :: "string \<Rightarrow> outcome \<Rightarrow> string list \<Rightarrow> outcome \<times> string list" where
  "logging nm out lg = (out, lg @ [nm])"

definition log_callback :: "string list jsfun" where
  "log_callback args lg =
     (Return Undefined,
      lg @ [''callback '' @ (case args of ArgVal e # rest \<Rightarrow> to_string e | _ \<Rightarrow> [])])"

definition log_server :: "string list Server" where
  "log_server = \<lparr> addr_port = 49152, close_server = logging ''close'' (Return Undefined) \<rparr>"

definition log_handler :: "string list handler" where
  "log_handler =
     \<lparr> h_server = Some log_server, h_app = AppListener \<lparr> listen = (\<lambda>p. log_server) \<rparr>,
       h_callback = Some log_callback \<rparr>"

definition log_test :: "string list Test" where
  "log_test =
     \<lparr> req_method = ''GET'', maxRedirects = 0, app = AppListener \<lparr> listen = (\<lambda>p. log_server) \<rparr>,
       url = ''http://127.0.0.1:49152/user'',
       asserts = [\<lambda>res. logging ''check 1'' (Return Undefined),
                  \<lambda>res. logging ''check 2'' (Return (Boolean True))],
       server = Some log_server, superEnd = [] \<rparr>"

definition log_promises :: "string list \<Rightarrow> string list promise option list" where
  "log_promises lg =
     [Some (logging ''await 1'' (Throw (new_Error ''drain failed''))), None,
      Some (logging ''await 2'' (Return Undefined))]"

section \<open>The loop over the pending assertions\<close>

declare assert_loop.simps [simp del]

declare show_nat.simps [simp del]

lemma assert_loop_stop:
  "\<not> (i < length as \<and> \<not> truthy err) \<Longrightarrow> assert_loop as res i err s = (i, err, s)"
  by (subst assert_loop.simps) auto

lemma assert_loop_step:
  "i < length as \<Longrightarrow> \<not> truthy err \<Longrightarrow> assertFunction (as ! i) res s = (err', s')
     \<Longrightarrow> assert_loop as res i err s = assert_loop as res (Suc i) err' s'"
  by (subst assert_loop.simps) simp

lemma assert_loop_pass:
  assumes "i \<le> n" and "n \<le> length as"
    and "\<forall>k. i \<le> k \<and> k < n \<longrightarrow> assertFunction (as ! k) res (ss ! k) = (Undefined, ss ! Suc k)"
  shows "assert_loop as res i Undefined (ss ! i) = assert_loop as res n Undefined (ss ! n)"
  using assms
proof (induction rule: inc_induct)
  case base
  show ?case by simp
next
  case (step k)
  have "assertFunction (as ! k) res (ss ! k) = (Undefined, ss ! Suc k)"
    using step.prems step.hyps by simp
  then have "assert_loop as res k Undefined (ss ! k) = assert_loop as res (Suc k) Undefined (ss ! Suc k)"
    using step.hyps step.prems by (intro assert_loop_step) simp_all
  also have "\<dots> = assert_loop as res n Undefined (ss ! n)"
    using step.prems by (intro step.IH) simp_all
  finally show ?case .
qed

lemma assert_loop_fail:
  assumes "n < length as" and "assertFunction (as ! n) res s = (e, s2)" and "truthy e"
  shows "assert_loop as res n Undefined s = (Suc n, e, s2)"
proof -
  have "assert_loop as res n Undefined s = assert_loop as res (Suc n) e s2"
    using assms by (intro assert_loop_step) simp_all
  also have "\<dots> = (Suc n, e, s2)"
    using assms by (intro assert_loop_stop) simp
  finally show ?thesis .
qed

lemma first_failure:
  assumes "ss ! 0 = s"
    and "\<forall>k<length pre. assertFunction (pre ! k) res (ss ! k) = (Undefined, ss ! Suc k)"
    and "assertFunction f res (ss ! length pre) = (e, s2)" and "truthy e"
  shows "assert_loop (pre @ f # post) res 0 Undefined s = (Suc (length pre), e, s2)"
proof -
  let ?as = "pre @ f # post"
  have "assert_loop ?as res 0 Undefined (ss ! 0) = assert_loop ?as res (length pre) Undefined (ss ! length pre)"
    using assms(2) by (intro assert_loop_pass) (simp_all add: nth_append)
  also have "\<dots> = (Suc (length pre), e, s2)"
    using assms(3,4) by (intro assert_loop_fail) simp_all
  finally show ?thesis using assms(1) by simp
qed

lemma all_pass:
  assumes "ss ! 0 = s"
    and "\<forall>k<length as. assertFunction (as ! k) res (ss ! k) = (Undefined, ss ! Suc k)"
  shows "assert_loop as res 0 Undefined s = (length as, Undefined, ss ! length as)"
proof -
  have "assert_loop as res 0 Undefined (ss ! 0) = assert_loop as res (length as) Undefined (ss ! length as)"
    using assms(2) by (intro assert_loop_pass) simp_all
  also have "\<dots> = (length as, Undefined, ss ! length as)"
    by (intro assert_loop_stop) simp
  finally show ?thesis using assms(1) by simp
qed

lemma instanceof_Error_truthy: "instanceof_Error e \<Longrightarrow> truthy e"
  by (cases e) simp_all

lemmas example_simps =
  less_Suc_eq assertFunction_def call1_def bound_def counting_def assertStatus_def
  new_Error_def example_response_def reporting_def res_arg_def

text \<open>Strings of the examples, evaluated.\<close>

lemma toUpperCase_get: "toUpperCase ''get'' = ''GET''"
  by code_simp

lemma digit_chars:
  "digit_char 0 = CHR ''0''" "digit_char 1 = CHR ''1''" "digit_char 2 = CHR ''2''"
  "digit_char 3 = CHR ''3''" "digit_char 4 = CHR ''4''" "digit_char 5 = CHR ''5''"
  "digit_char 6 = CHR ''6''" "digit_char 7 = CHR ''7''" "digit_char 8 = CHR ''8''"
  "digit_char 9 = CHR ''9''" "digit_char (Suc 0) = CHR ''1''"
  by code_simp+

lemma show_nat_4000: "show_nat 4000 = ''4000''"
  by (simp add: show_nat.simps digit_chars)

lemma show_nat_49152: "show_nat 49152 = ''49152''"
  by (simp add: show_nat.simps digit_chars)

lemma show_int_200: "show_int 200 = ''200''"
  by (simp add: show_int_def show_nat.simps digit_chars)

lemma show_int_404: "show_int 404 = ''404''"
  by (simp add: show_int_def show_nat.simps digit_chars)

lemma example_ports:
  "addr_port example_server = 4000" "addr_port (listen example_listener 0) = 49152"
  by (simp_all add: example_server_def example_listener_def)

section \<open>Short-circuit evaluation\<close>

text \<open>
  C1. For a response \<open>r\<close> and pending assertions \<open>pre @ f # post\<close>: when every entry of
  \<open>pre\<close> passes (entry \<open>k\<close> is evaluated in the state \<open>ss ! k\<close>, gives no error and leaves
  the state \<open>ss ! Suc k\<close>) and \<open>f\<close> then fails with the error \<open>e\<close>, leaving the state
  \<open>s2\<close>, the loop stops at index \<open>length pre + 1\<close> with \<open>e\<close> in the state \<open>s2\<close>, and the
  callback is called with exactly \<open>e\<close> in that state. Neither the error nor the state
  depends on \<open>post\<close>: the state is the one \<open>f\<close> left, so no entry of \<open>post\<close> was called,
  whatever it would have returned or changed.
\<close>

theorem assert_stops_at_first_failure:
  assumes "ss ! 0 = s"
    and "\<forall>k<length pre. assertFunction (pre ! k) (Some r) (ss ! k) = (Undefined, ss ! Suc k)"
    and "assertFunction f (Some r) (ss ! length pre) = (e, s2)"
    and "instanceof_Error e"
  shows "assert_loop (pre @ f # post) (Some r) 0 Undefined s = (Suc (length pre), e, s2)
       \<and> assert_error (pre @ f # post) resError (Some r) s = (e, s2)
       \<and> assert (pre @ f # post) resError (Some r) (Some cb) s = snd (cb [ArgVal e, ArgRes r] s2)"
proof -
  have t: "truthy e" using assms(4) by (rule instanceof_Error_truthy)
  have l: "assert_loop (pre @ f # post) (Some r) 0 Undefined s = (Suc (length pre), e, s2)"
    using assms(1,2,3) t by (rule first_failure)
  have a: "assert_error (pre @ f # post) resError (Some r) s = (e, s2)"
    using t by (simp add: assert_error_def l)
  show ?thesis using l a by (simp add: assert_def res_arg_def)
qed

text \<open>
  Four pending assertions, three of them counting their invocations: the third fails, the
  counter ends at two and the fourth, which would fail too, has not run.
\<close>

theorem assert_stops_at_first_failure_witness:
  "assert
     [call1 (counting Undefined), bound (assertStatus example_deps 200),
      call1 (counting (new_Error ''bad'')), call1 (counting (new_Error ''later''))]
     Null (Some example_response) (Some reporting) (0, [])
     = (2, [ArgVal (new_Error ''bad''), ArgRes example_response])
   \<and> assert_loop
     [call1 (counting Undefined), bound (assertStatus example_deps 200),
      call1 (counting (new_Error ''bad'')), call1 (counting (new_Error ''later''))]
     (Some example_response) 0 Undefined (0, []) = (3, new_Error ''bad'', (2, []))"
  using assert_stops_at_first_failure
    [of "[(0, []), (1, []), (1, [])]" "(0, [])"
        "[call1 (counting Undefined), bound (assertStatus example_deps 200)]"
        example_response "call1 (counting (new_Error ''bad''))" "new_Error ''bad''" "(2, [])"
        "[call1 (counting (new_Error ''later''))]" Null reporting]
  by (simp add: less_Suc_eq assertFunction_def call1_def bound_def counting_def assertStatus_def
        new_Error_def example_response_def reporting_def)

section \<open>Which error the callback receives\<close>

text \<open>
  C2. The callback is called once, with one error value. With no response and a transport
  error, the loop stops at index 0 and the callback receives the transport error in the
  unchanged state, whatever the pending assertions are. Otherwise, when an assertion fails
  after all before it passed, the callback receives that assertion's error. Otherwise,
  when all assertions pass, it receives the transport error if there is one, and
  \<^verbatim>\<open>null\<close> if there is none.
\<close>

theorem completion_error_precedence:
  "assert as resError res (Some cb) s
     = snd (cb [ArgVal (fst (assert_error as resError res s)), res_arg res]
              (snd (assert_error as resError res s)))
   \<and> (truthy resError \<longrightarrow>
        assert_loop as None 0 resError s = (0, resError, s)
        \<and> assert as resError None (Some cb) s = snd (cb [ArgVal resError, ArgVal Undefined] s))
   \<and> (\<not> (res = None \<and> truthy resError) \<and> ss ! 0 = s
        \<and> (\<forall>k<length pre. assertFunction (pre ! k) res (ss ! k) = (Undefined, ss ! Suc k))
        \<and> assertFunction f res (ss ! length pre) = (e, s2) \<and> instanceof_Error e \<longrightarrow>
        assert (pre @ f # post) resError res (Some cb) s = snd (cb [ArgVal e, res_arg res] s2))
   \<and> (\<not> (res = None \<and> truthy resError) \<and> ss ! 0 = s
        \<and> (\<forall>k<length as. assertFunction (as ! k) res (ss ! k) = (Undefined, ss ! Suc k))
        \<and> truthy resError \<longrightarrow>
        assert as resError res (Some cb) s
          = snd (cb [ArgVal resError, res_arg res] (ss ! length as)))
   \<and> (ss ! 0 = s
        \<and> (\<forall>k<length as. assertFunction (as ! k) res (ss ! k) = (Undefined, ss ! Suc k))
        \<and> \<not> truthy resError \<longrightarrow>
        assert as resError res (Some cb) s = snd (cb [ArgVal Null, res_arg res] (ss ! length as)))"
proof (intro conjI impI)
  show "assert as resError res (Some cb) s
     = snd (cb [ArgVal (fst (assert_error as resError res s)), res_arg res]
              (snd (assert_error as resError res s)))"
    by (simp add: assert_def split: prod.splits)
next
  assume t: "truthy resError"
  show l: "assert_loop as None 0 resError s = (0, resError, s)"
    using t by (intro assert_loop_stop) simp
  show "assert as resError None (Some cb) s = snd (cb [ArgVal resError, ArgVal Undefined] s)"
    using t by (simp add: assert_def assert_error_def l res_arg_def)
next
  assume h: "\<not> (res = None \<and> truthy resError) \<and> ss ! 0 = s
        \<and> (\<forall>k<length pre. assertFunction (pre ! k) res (ss ! k) = (Undefined, ss ! Suc k))
        \<and> assertFunction f res (ss ! length pre) = (e, s2) \<and> instanceof_Error e"
  then have t: "truthy e" by (simp add: instanceof_Error_truthy)
  have l: "assert_loop (pre @ f # post) res 0 Undefined s = (Suc (length pre), e, s2)"
    using h t first_failure [of ss s pre res f e s2 post] by simp
  show "assert (pre @ f # post) resError res (Some cb) s = snd (cb [ArgVal e, res_arg res] s2)"
    using h t by (auto simp add: assert_def assert_error_def l)
next
  assume h: "\<not> (res = None \<and> truthy resError) \<and> ss ! 0 = s
        \<and> (\<forall>k<length as. assertFunction (as ! k) res (ss ! k) = (Undefined, ss ! Suc k))
        \<and> truthy resError"
  have l: "assert_loop as res 0 Undefined s = (length as, Undefined, ss ! length as)"
    using h all_pass [of ss s as res] by simp
  show "assert as resError res (Some cb) s = snd (cb [ArgVal resError, res_arg res] (ss ! length as))"
    using h by (auto simp add: assert_def assert_error_def l)
next
  assume h: "ss ! 0 = s
        \<and> (\<forall>k<length as. assertFunction (as ! k) res (ss ! k) = (Undefined, ss ! Suc k))
        \<and> \<not> truthy resError"
  have l: "assert_loop as res 0 Undefined s = (length as, Undefined, ss ! length as)"
    using h all_pass [of ss s as res] by simp
  show "assert as resError res (Some cb) s = snd (cb [ArgVal Null, res_arg res] (ss ! length as))"
    using h by (auto simp add: assert_def assert_error_def l)
qed

theorem completion_error_precedence_witness:
  "assert [call1 (counting (new_Error ''bad''))] (new_Error ''ECONNREFUSED'') None
      (Some reporting) (0, [])
     = (0, [ArgVal (new_Error ''ECONNREFUSED''), ArgVal Undefined])
   \<and> assert [call1 (counting Undefined), call1 (counting (new_Error ''bad'')),
             call1 (counting (new_Error ''later''))]
       (new_Error ''socket hang up'') (Some example_response) (Some reporting) (0, [])
     = (2, [ArgVal (new_Error ''bad''), ArgRes example_response])
   \<and> assert [call1 (counting Undefined), bound (assertStatus example_deps 200)]
       (new_Error ''socket hang up'') (Some example_response) (Some reporting) (0, [])
     = (1, [ArgVal (new_Error ''socket hang up''), ArgRes example_response])
   \<and> assert [call1 (counting Undefined), bound (assertStatus example_deps 200)]
       Null (Some example_response) (Some reporting) (0, [])
     = (1, [ArgVal Null, ArgRes example_response])"
  using
    completion_error_precedence
      [of "[call1 (counting (new_Error ''bad''))]" "new_Error ''ECONNREFUSED''" None reporting
          "(0, [])", THEN conjunct2]
    completion_error_precedence
      [of _ "new_Error ''socket hang up''" "Some example_response" reporting "(0, [])"
          "[(0, []), (1, [])]" "[call1 (counting Undefined)]"
          "call1 (counting (new_Error ''bad''))" "new_Error ''bad''" "(2, [])"
          "[call1 (counting (new_Error ''later''))]", THEN conjunct2]
    completion_error_precedence
      [of "[call1 (counting Undefined), bound (assertStatus example_deps 200)]"
          "new_Error ''socket hang up''" "Some example_response" reporting "(0, [])"
          "[(0, []), (1, []), (1, [])]", THEN conjunct2]
    completion_error_precedence
      [of "[call1 (counting Undefined), bound (assertStatus example_deps 200)]"
          Null "Some example_response" reporting "(0, [])"
          "[(0, []), (1, []), (1, [])]", THEN conjunct2]
  by (simp add: example_simps)

section \<open>Predicate functions\<close>

text \<open>
  C7, as amended. A function of the caller pending as an assertion is called with the
  response alone. When it returns an \<^verbatim>\<open>Error\<close> instance, the assertion fails with exactly
  that value; when it returns any other value (\<^verbatim>\<open>undefined\<close> when it returns nothing),
  the assertion passes. A value it throws is caught and handled as the same value
  returned: a thrown \<^verbatim>\<open>Error\<close> instance is the failure, and a thrown value that is not
  one passes.
\<close>

theorem predicate_expectation:
  "(f [res_arg res] s = (Return v, s') \<and> instanceof_Error v \<longrightarrow>
      assertFunction (call1 f) res s = (v, s'))
   \<and> (f [res_arg res] s = (Return v, s') \<and> \<not> instanceof_Error v \<longrightarrow>
      assertFunction (call1 f) res s = (Undefined, s'))
   \<and> (f [res_arg res] s = (Throw v, s') \<and> instanceof_Error v \<longrightarrow>
      assertFunction (call1 f) res s = (v, s'))
   \<and> (f [res_arg res] s = (Throw v, s') \<and> \<not> instanceof_Error v \<longrightarrow>
      assertFunction (call1 f) res s = (Undefined, s'))"
  by (simp add: assertFunction_def call1_def)

text \<open>
  Functions that return an \<^verbatim>\<open>Error\<close>, \<^verbatim>\<open>true\<close> and \<^verbatim>\<open>undefined\<close>, and a function that
  throws an \<^verbatim>\<open>Error\<close>; each counts its invocation.
\<close>

theorem predicate_expectation_witness:
  "assertFunction (call1 (counting (new_Error ''bad''))) (Some example_response) (0, [])
     = (new_Error ''bad'', (1, []))
   \<and> assertFunction (call1 (counting (Boolean True))) (Some example_response) (0, [])
     = (Undefined, (1, []))
   \<and> assertFunction (call1 (counting Undefined)) (Some example_response) (0, [])
     = (Undefined, (1, []))
   \<and> assertFunction (call1 (throwing (new_Error ''bad''))) (Some example_response) (0, [])
     = (new_Error ''bad'', (1, []))"
  using
    predicate_expectation
      [of "counting (new_Error ''bad'')" "Some example_response" "(0, [])" "new_Error ''bad''"
          "(1, [])"]
    predicate_expectation
      [of "counting (Boolean True)" "Some example_response" "(0, [])" "Boolean True" "(1, [])"]
    predicate_expectation
      [of "counting Undefined" "Some example_response" "(0, [])" Undefined "(1, [])"]
    predicate_expectation
      [of "throwing (new_Error ''bad'')" "Some example_response" "(0, [])" "new_Error ''bad''"
          "(1, [])"]
  by (simp add: counting_def throwing_def new_Error_def)

text \<open>
  C7 as stated fails for an exception that is not an \<^verbatim>\<open>Error\<close> instance: a function that
  throws the string \<^verbatim>\<open>bad\<close> is caught and the assertion passes, where a function that
  returns an \<^verbatim>\<open>Error\<close> fails.
\<close>

theorem thrown_string_counterexample:
  "assertFunction (call1 (throwing (String ''bad''))) (Some example_response) (0, [])
     = (Undefined, (1, []))
   \<and> assertFunction (call1 (counting (new_Error ''bad''))) (Some example_response) (0, [])
     = (new_Error ''bad'', (1, []))"
  by (simp add: assertFunction_def call1_def counting_def throwing_def new_Error_def res_arg_def)

section \<open>Triggering completion\<close>

text \<open>
  C3, as amended. Every call of \<^verbatim>\<open>end\<close> calls the underlying client's \<^verbatim>\<open>end\<close> exactly
  once, with a function closing over the server, the handle and the callback of that
  call; \<^verbatim>\<open>end\<close> keeps no record of an earlier call, so two calls make two calls of the
  underlying client. The pending assertions are not changed.
\<close>

theorem end_forwards_every_call:
  "superEnd (Test_end cb t)
     = superEnd t @ [\<lparr> h_server = server t, h_app = app t, h_callback = cb \<rparr>]
   \<and> length (superEnd (Test_end cb2 (Test_end cb1 t))) = length (superEnd t) + 2
   \<and> asserts (Test_end cb t) = asserts t"
  by (simp add: Test_end_def)

text \<open>
  C3 as stated fails: on a fresh instance, two calls of \<^verbatim>\<open>end\<close> reach the underlying
  client twice.
\<close>

theorem end_twice_counterexample:
  "constructor (AppString ''http://localhost:3000'') ''get'' ''/user'' None None
     = Inr example_test
   \<and> superEnd example_test = []
   \<and> \<not> length (superEnd (Test_end None (Test_end None example_test))) \<le> 1"
  by (simp add: constructor_def example_test_def Test_end_def toUpperCase_get)

section \<open>The payload of assertion errors\<close>

lemma assertBody_result:
  "assertBody d b (Some r) = Return Undefined
   \<or> (\<exists>msg. assertBody d b (Some r) = Return (error msg b (body r)))"
  by (auto simp add: assertBody_def Let_def)

lemma assertStatus_result:
  "assertStatus d st (Some r) = Return Undefined
   \<or> (\<exists>msg. assertStatus d st (Some r) = Return (new_Error msg))"
  by (auto simp add: assertStatus_def)

lemma assertHeader_result:
  "assertHeader field v (Some r) = Return Undefined
   \<or> (\<exists>msg. assertHeader field v (Some r) = Return (new_Error msg))"
  by (auto simp add: assertHeader_def split: option.split)

text \<open>
  C4, as amended. Every error of a body assertion (structural, string or pattern mismatch)
  carries \<^verbatim>\<open>expected\<close>, the expected body, \<^verbatim>\<open>actual\<close>, the parsed body of the
  response, and \<^verbatim>\<open>showDiff\<close>. An error of a status mismatch is a plain \<^verbatim>\<open>Error\<close> with
  none of the three properties, and so is an error of a header assertion.
\<close>

theorem body_errors_carry_payload:
  "(assertBody d b (Some r) = Return e \<and> instanceof_Error e \<longrightarrow>
      expected e = Some b \<and> actual e = Some (body r) \<and> showDiff e = Some (Boolean True))
   \<and> (assertStatus d st (Some r) = Return e \<and> instanceof_Error e \<longrightarrow>
      expected e = None \<and> actual e = None \<and> showDiff e = None)
   \<and> (assertHeader field v (Some r) = Return e \<and> instanceof_Error e \<longrightarrow>
      expected e = None \<and> actual e = None \<and> showDiff e = None)"
proof -
  have b: "expected e = Some b \<and> actual e = Some (body r) \<and> showDiff e = Some (Boolean True)"
    if h: "assertBody d b (Some r) = Return e \<and> instanceof_Error e"
  proof -
    from h assertBody_result [of d b r] obtain msg where "e = error msg b (body r)"
      by auto
    then show ?thesis by (simp add: error_def)
  qed
  have s: "expected e = None \<and> actual e = None \<and> showDiff e = None"
    if h: "assertStatus d st (Some r) = Return e \<and> instanceof_Error e"
  proof -
    from h assertStatus_result [of d st r] obtain msg where "e = new_Error msg"
      by auto
    then show ?thesis by (simp add: new_Error_def)
  qed
  have f: "expected e = None \<and> actual e = None \<and> showDiff e = None"
    if h: "assertHeader field v (Some r) = Return e \<and> instanceof_Error e"
  proof -
    from h assertHeader_result [of field v r] obtain msg where "e = new_Error msg"
      by auto
    then show ?thesis by (simp add: new_Error_def)
  qed
  from b s f show ?thesis by blast
qed

text \<open>
  C4 as stated fails: the error of a status mismatch (200 expected, 404 received) has no
  \<^verbatim>\<open>expected\<close> and no \<^verbatim>\<open>actual\<close> property.
\<close>

theorem status_error_counterexample:
  "assertStatus example_deps 200 (Some not_found_response)
     = Return (Error ''Error'' ''expected 200 \"OK\", got 404 \"Not Found\"'' None None None)
   \<and> expected (Error ''Error'' ''expected 200 \"OK\", got 404 \"Not Found\"'' None None None) = None
   \<and> actual (Error ''Error'' ''expected 200 \"OK\", got 404 \"Not Found\"'' None None None) = None"
  by (simp add: assertStatus_def example_deps_def not_found_response_def new_Error_def
        status_text_def show_int_200 show_int_404)

text \<open>A structural mismatch of the body, with its payload.\<close>

theorem body_errors_carry_payload_witness:
  "assertBody example_deps (Object [(''a'', Number 1)]) (Some not_found_response)
     = Return (Error ''Error'' ''expected [object Object] response body, got [object Object]''
         (Some (Object [(''a'', Number 1)])) (Some (Object [(''a'', Number 2)]))
         (Some (Boolean True)))
   \<and> expected (Error ''Error'' ''expected [object Object] response body, got [object Object]''
         (Some (Object [(''a'', Number 1)])) (Some (Object [(''a'', Number 2)]))
         (Some (Boolean True))) = Some (Object [(''a'', Number 1)])"
  using body_errors_carry_payload
    [of example_deps "Object [(''a'', Number 1)]" not_found_response
      "Error ''Error'' ''expected [object Object] response body, got [object Object]''
         (Some (Object [(''a'', Number 1)])) (Some (Object [(''a'', Number 2)]))
         (Some (Boolean True))"]
  by (simp add: assertBody_def example_deps_def not_found_response_def error_def)

section \<open>Construction\<close>

lemma constructor_AppString:
  "constructor (AppString str) m path host sec
     = Inr \<lparr> req_method = toUpperCase m, maxRedirects = 0, app = AppString str,
             url = str @ path, asserts = [], server = None, superEnd = [] \<rparr>"
  by (simp add: constructor_def)

lemma constructor_AppServer:
  "constructor (AppServer srv) m path host sec
     = Inr \<lparr> req_method = toUpperCase m, maxRedirects = 0, app = AppServer srv,
             url = serverAddress srv path host (sec = Some True),
             asserts = [], server = Some srv, superEnd = [] \<rparr>"
  by (cases sec) (simp_all add: constructor_def)

lemma constructor_AppListener:
  "constructor (AppListener l) m path host sec
     = Inr \<lparr> req_method = toUpperCase m, maxRedirects = 0, app = AppListener l,
             url = serverAddress (listen l 0) path host False,
             asserts = [], server = Some (listen l 0), superEnd = [] \<rparr>"
  by (simp add: constructor_def Let_def)

lemma constructor_AppOther:
  "constructor (AppOther v) m path host sec
     = Inl (new_Error ''superdeno is unable to identify or create a valid test server'')"
  by (simp add: constructor_def)

lemma serverAddress_default_host:
  "serverAddress srv path None secure
     = (if secure then ''https'' else ''http'') @ ''://127.0.0.1:''
       @ show_nat (addr_port srv) @ path"
  by (simp add: serverAddress_def)

lemma serverAddress_explicit_host:
  "h \<noteq> [] \<Longrightarrow> serverAddress srv path (Some h) secure
     = (if secure then ''https'' else ''http'') @ ''://'' @ h @ '':''
       @ show_nat (addr_port srv) @ path"
  by (simp add: serverAddress_def)

text \<open>
  C5, as amended. For a string handle the URL is the handle followed by the path, and no
  server is held. For a running server the URL is the scheme, \<^verbatim>\<open>://\<close>, the host, a
  colon, the port of the server's bound address and the path; the scheme is \<^verbatim>\<open>https\<close>
  when \<^verbatim>\<open>secure\<close> is true and \<^verbatim>\<open>http\<close> otherwise, and the host is \<^verbatim>\<open>127.0.0.1\<close> when none
  is given. For a factory the server is the one \<^verbatim>\<open>listen\<close> returns for port 0, and the
  scheme is \<^verbatim>\<open>http\<close> whatever \<^verbatim>\<open>secure\<close> was. For any other handle the constructor throws
  an \<^verbatim>\<open>Error\<close> whose message is
  \<^verbatim>\<open>superdeno is unable to identify or create a valid test server\<close>, and there is no
  instance to send a request from.
\<close>

theorem constructor_resolves_url:
  "constructor (AppString str) m path host sec
     = Inr \<lparr> req_method = toUpperCase m, maxRedirects = 0, app = AppString str,
             url = str @ path, asserts = [], server = None, superEnd = [] \<rparr>
   \<and> constructor (AppServer srv) m path None sec
     = Inr \<lparr> req_method = toUpperCase m, maxRedirects = 0, app = AppServer srv,
             url = (if sec = Some True then ''https'' else ''http'') @ ''://127.0.0.1:''
                   @ show_nat (addr_port srv) @ path,
             asserts = [], server = Some srv, superEnd = [] \<rparr>
   \<and> (h \<noteq> [] \<longrightarrow>
       constructor (AppServer srv) m path (Some h) sec
         = Inr \<lparr> req_method = toUpperCase m, maxRedirects = 0, app = AppServer srv,
                 url = (if sec = Some True then ''https'' else ''http'') @ ''://'' @ h @ '':''
                       @ show_nat (addr_port srv) @ path,
                 asserts = [], server = Some srv, superEnd = [] \<rparr>)
   \<and> constructor (AppListener l) m path None sec
     = Inr \<lparr> req_method = toUpperCase m, maxRedirects = 0, app = AppListener l,
             url = ''http://127.0.0.1:'' @ show_nat (addr_port (listen l 0)) @ path,
             asserts = [], server = Some (listen l 0), superEnd = [] \<rparr>
   \<and> (h \<noteq> [] \<longrightarrow>
       constructor (AppListener l) m path (Some h) sec
         = Inr \<lparr> req_method = toUpperCase m, maxRedirects = 0, app = AppListener l,
                 url = ''http://'' @ h @ '':'' @ show_nat (addr_port (listen l 0)) @ path,
                 asserts = [], server = Some (listen l 0), superEnd = [] \<rparr>)
   \<and> constructor (AppOther v) m path host sec
     = Inl (new_Error ''superdeno is unable to identify or create a valid test server'')"
proof -
  have d: "serverAddress (listen l 0) path None False
             = ''http://127.0.0.1:'' @ show_nat (addr_port (listen l 0)) @ path"
    by (simp add: serverAddress_def)
  have e: "serverAddress (listen l 0) path (Some h) False
             = ''http://'' @ h @ '':'' @ show_nat (addr_port (listen l 0)) @ path"
    if "h \<noteq> []"
    using that by (simp add: serverAddress_def)
  show ?thesis
    by (simp add: constructor_AppString constructor_AppServer constructor_AppListener
          constructor_AppOther serverAddress_default_host serverAddress_explicit_host d e)
qed

text \<open>A running server on port 4000 and a factory whose server gets port 49152.\<close>

theorem constructor_resolves_url_witness:
  "constructor (AppServer example_server) ''get'' ''/user'' (Some ''localhost'') (Some True)
     = Inr \<lparr> req_method = ''GET'', maxRedirects = 0, app = AppServer example_server,
             url = ''https://localhost:4000/user'', asserts = [], server = Some example_server,
             superEnd = [] \<rparr>
   \<and> constructor (AppListener example_listener) ''get'' ''/user'' (Some ''localhost'') (Some True)
     = Inr \<lparr> req_method = ''GET'', maxRedirects = 0, app = AppListener example_listener,
             url = ''http://localhost:49152/user'', asserts = [],
             server = Some (listen example_listener 0), superEnd = [] \<rparr>"
proof -
  have h: "''localhost'' \<noteq> []" by simp
  note t = constructor_resolves_url
      [of "''http://localhost:3000''" "''get''" "''/user''" None "Some True" example_server
          "''localhost''" example_listener Null]
  from t h have a:
    "constructor (AppServer example_server) ''get'' ''/user'' (Some ''localhost'') (Some True)
       = Inr \<lparr> req_method = toUpperCase ''get'', maxRedirects = 0, app = AppServer example_server,
               url = (if Some True = Some True then ''https'' else ''http'') @ ''://''
                     @ ''localhost'' @ '':'' @ show_nat (addr_port example_server) @ ''/user'',
               asserts = [], server = Some example_server, superEnd = [] \<rparr>"
    by blast
  from t h have b:
    "constructor (AppListener example_listener) ''get'' ''/user'' (Some ''localhost'') (Some True)
       = Inr \<lparr> req_method = toUpperCase ''get'', maxRedirects = 0,
               app = AppListener example_listener,
               url = ''http://'' @ ''localhost'' @ '':''
                     @ show_nat (addr_port (listen example_listener 0)) @ ''/user'',
               asserts = [], server = Some (listen example_listener 0), superEnd = [] \<rparr>"
    by blast
  show ?thesis
    unfolding a b by (simp add: toUpperCase_get example_ports show_nat_4000 show_nat_49152)
qed

text \<open>
  C5 as stated fails in the message: the error thrown for an unrecognised handle has a
  message that starts with \<^verbatim>\<open>superdeno is\<close>, and is not the string the claim quotes.
\<close>

theorem constructor_message_counterexample:
  "constructor (AppOther Null :: example_state app) ''get'' ''/user'' None None
     = Inl (Error ''Error'' ''superdeno is unable to identify or create a valid test server''
              None None None)
   \<and> message (Error ''Error'' ''superdeno is unable to identify or create a valid test server''
                None None None)
       \<noteq> ''unable to identify or create a valid test server''"
proof -
  have a: "constructor (AppOther Null :: example_state app) ''get'' ''/user'' None None
     = Inl (Error ''Error'' ''superdeno is unable to identify or create a valid test server''
              None None None)"
    by (simp add: constructor_AppOther new_Error_def)
  have b: "message (Error ''Error'' ''superdeno is unable to identify or create a valid test server''
                None None None)
       \<noteq> ''unable to identify or create a valid test server''"
    by simp
  from a b show ?thesis by (rule conjI)
qed

section \<open>Declaring expectations\<close>

lemma Test_end_fields:
  "asserts (Test_end cb t) = asserts t \<and> req_method (Test_end cb t) = req_method t
   \<and> maxRedirects (Test_end cb t) = maxRedirects t \<and> app (Test_end cb t) = app t
   \<and> url (Test_end cb t) = url t \<and> server (Test_end cb t) = server t"
  by (simp add: Test_end_def)

lemma expect_asserts_prefix:
  "take (length (asserts t)) (asserts (expect d args t)) = asserts t
   \<and> length (asserts t) < length (asserts (expect d args t))"
  by (simp add: expect_def Let_def Test_end_fields split: arg.split jsval.split)

lemma expect_fields:
  "req_method (expect d args t) = req_method t
   \<and> maxRedirects (expect d args t) = maxRedirects t \<and> app (expect d args t) = app t
   \<and> url (expect d args t) = url t \<and> server (expect d args t) = server t"
  by (simp add: expect_def Let_def Test_end_fields split: arg.split jsval.split)

text \<open>
  C6. A call of \<^verbatim>\<open>expect\<close> whose first argument is a number and whose second argument is
  present and not a function appends exactly the status assertion and then the body
  assertion, whatever follows them. Every call keeps the entries that were pending, in
  their order, adds at least one, and leaves the method, the redirect limit, the handle,
  the URL and the server of the instance as they were: what it returns is the instance.
\<close>

theorem expect_status_body_appends_pair:
  "asserts (expect d (Val (Number n) # Val vb # rest) t)
     = asserts t @ [bound (assertStatus d n), bound (assertBody d vb)]
   \<and> take (length (asserts t)) (asserts (expect d args t)) = asserts t
   \<and> length (asserts t) < length (asserts (expect d args t))
   \<and> req_method (expect d args t) = req_method t
   \<and> maxRedirects (expect d args t) = maxRedirects t \<and> app (expect d args t) = app t
   \<and> url (expect d args t) = url t \<and> server (expect d args t) = server t"
proof -
  have "asserts (expect d (Val (Number n) # Val vb # rest) t)
     = asserts t @ [bound (assertStatus d n), bound (assertBody d vb)]"
    by (simp add: expect_def arg_at_def Let_def Test_end_fields split: arg.split)
  then show ?thesis
    using expect_asserts_prefix [of t d args] expect_fields [of d args t] by simp
qed

section \<open>Header assertions\<close>

lemma toLowerCase_examples:
  "toLowerCase ''Content-Type'' = ''content-type''"
  "toLowerCase ''CONTENT-TYPE'' = ''content-type''"
  "toLowerCase ''Set-Cookie'' = ''set-cookie''"
  "toLowerCase ''X-Missing'' = ''x-missing''"
  by code_simp+

lemma header_pass_iff:
  "\<not> instanceof_RegExp v \<Longrightarrow>
     ((isArray act \<and> String (header_string act) = v) \<or> header_identical v act)
       = (v = String (header_string act))"
  by (cases act; cases v) auto

lemma regexp_not_identical:
  "\<not> ((isArray act \<and> String (header_string act) = RegExp src fl t)
        \<or> header_identical (RegExp src fl t) act)"
  by (cases act) simp_all

lemma assertHeader_missing:
  "headers r (toLowerCase field) = None \<Longrightarrow>
     assertHeader field v (Some r)
       = Return (new_Error (''expected \"'' @ field @ ''\" header field''))"
  by (simp add: assertHeader_def)

lemma assertHeader_regexp:
  "headers r (toLowerCase field) = Some act \<Longrightarrow>
     assertHeader field (RegExp src fl t) (Some r)
       = (if t (header_string act) then Return Undefined
          else Return (new_Error (''expected \"'' @ field @ ''\" matching /'' @ src @ ''/'' @ fl
                 @ '', got \"'' @ header_string act @ ''\"'')))"
  using regexp_not_identical [of act src fl t] by (simp add: assertHeader_def)

lemma assertHeader_exact:
  "headers r (toLowerCase field) = Some act \<Longrightarrow> \<not> instanceof_RegExp v \<Longrightarrow>
     assertHeader field v (Some r)
       = (if v = String (header_string act) then Return Undefined
          else Return (new_Error (''expected \"'' @ field @ ''\" of \"'' @ to_string v
                 @ ''\", got \"'' @ header_string act @ ''\"'')))"
  using header_pass_iff [of v act] by (simp add: assertHeader_def)

lemma assertHeader_passes_iff:
  "(assertHeader field v (Some r) = Return Undefined)
     = (case headers r (toLowerCase field) of
          None \<Rightarrow> False
        | Some act \<Rightarrow>
            (isArray act \<and> String (header_string act) = v) \<or> header_identical v act
            \<or> (instanceof_RegExp v \<and> test v (header_string act)))"
  by (simp add: assertHeader_def new_Error_def split: option.split)

text \<open>
  C8. With a response, a header assertion reads the header under the lower-cased name
  (the client keeps the headers of a response under lower-cased names), so whether it
  passes is the same for two names that differ only in case. When the header
  is absent it fails with the error \<^verbatim>\<open>expected "name" header field\<close>. When the expected
  value is a pattern, it passes exactly when the pattern matches the actual value
  rendered as a string. Otherwise it passes exactly when the expected value is the string
  that the actual value is, an array being rendered as a string (its elements joined by
  commas) first.
\<close>

theorem header_expectation:
  "(toLowerCase f1 = toLowerCase f2 \<longrightarrow>
      (assertHeader f1 v (Some r) = Return Undefined)
        = (assertHeader f2 v (Some r) = Return Undefined))
   \<and> (headers r (toLowerCase field) = None \<longrightarrow>
      assertHeader field v (Some r)
        = Return (new_Error (''expected \"'' @ field @ ''\" header field'')))
   \<and> (headers r (toLowerCase field) = Some act \<longrightarrow>
      assertHeader field (RegExp src fl t) (Some r)
        = (if t (header_string act) then Return Undefined
           else Return (new_Error (''expected \"'' @ field @ ''\" matching /'' @ src @ ''/'' @ fl
                  @ '', got \"'' @ header_string act @ ''\"''))))
   \<and> (headers r (toLowerCase field) = Some act \<and> \<not> instanceof_RegExp v \<longrightarrow>
      assertHeader field v (Some r)
        = (if v = String (header_string act) then Return Undefined
           else Return (new_Error (''expected \"'' @ field @ ''\" of \"'' @ to_string v
                  @ ''\", got \"'' @ header_string act @ ''\"''))))"
  using assertHeader_missing [of r field v] assertHeader_regexp [of r field act src fl t]
    assertHeader_exact [of r field act v]
  by (simp add: assertHeader_passes_iff)

text \<open>
  A header found under another case, a missing header, a pattern, an array value, and a
  mismatch.
\<close>

theorem header_expectation_witness:
  "assertHeader ''Content-Type'' (String ''application/json'') (Some example_response)
     = Return Undefined
   \<and> assertHeader ''CONTENT-TYPE'' (String ''application/json'') (Some example_response)
     = Return Undefined
   \<and> assertHeader ''X-Missing'' (String ''text/html'') (Some example_response)
     = Return (new_Error ''expected \"X-Missing\" header field'')
   \<and> assertHeader ''Content-Type'' (RegExp ''^application'' [] (\<lambda>s. take 11 s = ''application''))
       (Some example_response)
     = Return Undefined
   \<and> assertHeader ''Set-Cookie'' (String ''a=1,b=2'') (Some not_found_response)
     = Return Undefined
   \<and> assertHeader ''Content-Type'' (String ''text/html'') (Some example_response)
     = Return (new_Error ''expected \"Content-Type\" of \"text/html\", got \"application/json\"'')"
  using
    header_expectation
      [of "''CONTENT-TYPE''" "''Content-Type''" "String ''application/json''" example_response
          "''Content-Type''" "HString ''application/json''" "''^application''" "[]"
          "\<lambda>s. take 11 s = ''application''"]
    header_expectation
      [of "''Content-Type''" "''Content-Type''" "String ''text/html''" example_response
          "''X-Missing''" "HString ''application/json''" "''^application''" "[]"
          "\<lambda>s. take 11 s = ''application''"]
    header_expectation
      [of "''Content-Type''" "''Content-Type''" "String ''text/html''" example_response
          "''Content-Type''" "HString ''application/json''" "''^application''" "[]"
          "\<lambda>s. take 11 s = ''application''"]
    header_expectation
      [of "''Set-Cookie''" "''Set-Cookie''" "String ''a=1,b=2''" not_found_response
          "''Set-Cookie''" "HArray [''a=1'', ''b=2'']" "''^application''" "[]"
          "\<lambda>s. take 11 s = ''application''"]
  by (simp add: toLowerCase_examples example_response_def not_found_response_def)

section \<open>The order of settlement\<close>

lemma drain_states:
  "drain ps s = foldl (\<lambda>st p. case p of None \<Rightarrow> st | Some pr \<Rightarrow> snd (pr st)) s ps"
proof (induction ps arbitrary: s)
  case Nil
  show ?case by simp
next
  case (Cons p ps)
  show ?case
  proof (cases p)
    case None
    then show ?thesis using Cons.IH by simp
  next
    case (Some pr)
    obtain out s' where o: "pr s = (out, s')" by (cases "pr s")
    show ?thesis using Some o Cons.IH by (cases out) simp_all
  qed
qed

lemma drain_rejecting:
  "drain (map (map_option (\<lambda>pr st. (Throw e, snd (pr st)))) ps) s = drain ps s"
  by (induction ps arbitrary: s) (simp_all add: drain_states split: option.split)

lemma close_states:
  "close srv a serverError callback s
     = callback (case a of
                   AppListener l \<Rightarrow> (case srv of None \<Rightarrow> s | Some sv \<Rightarrow> snd (close_server sv s))
                 | _ \<Rightarrow> s)"
proof (cases a)
  case (AppListener l)
  show ?thesis
  proof (cases srv)
    case None
    then show ?thesis using AppListener by (simp add: close_def)
  next
    case (Some sv)
    obtain out s' where o: "close_server sv s = (out, s')" by (cases "close_server sv s")
    show ?thesis using AppListener Some o by (cases out) (simp_all add: close_def)
  qed
qed (simp_all add: close_def)

text \<open>
  C9. Called with the error and the response of the settled request, the function given
  to the underlying client first closes the server when the instance started it, then
  awaits the pending promises in order, keeping only the state each leaves, then
  evaluates the pending assertions, then calls the callback with the result: the final
  state is the composition of the four in this order. Making every pending promise
  reject, with any error, changes nothing of the result: the error of a rejected promise
  reaches neither the assertions nor the callback.
\<close>

theorem settle_runs_in_order:
  "settle promises h self err res s =
     (let s1 = (case h_app h of
                  AppListener l \<Rightarrow>
                    (case h_server h of None \<Rightarrow> s | Some sv \<Rightarrow> snd (close_server sv s))
                | _ \<Rightarrow> s);
          s2 = foldl (\<lambda>st p. case p of None \<Rightarrow> st | Some pr \<Rightarrow> snd (pr st)) s1 (promises s1);
          e = fst (assert_error (asserts self) err res s2);
          s3 = snd (assert_error (asserts self) err res s2)
      in case h_callback h of
           None \<Rightarrow> s3
         | Some cb \<Rightarrow> snd (cb [ArgVal e, res_arg res] s3))
   \<and> settle (\<lambda>st. map (map_option (\<lambda>pr st'. (Throw e', snd (pr st')))) (promises st))
        h self err res s
     = settle promises h self err res s"
  by (simp add: settle_def close_states drain_rejecting drain_states [symmetric] assert_def Let_def
        case_prod_unfold)

text \<open>
  The function \<^verbatim>\<open>end\<close> hands over for an instance that owns its server, a promise that
  rejects, a falsy entry, a promise that resolves, two passing assertions and a callback,
  all logging: the log is in the order of the claim and the callback receives
  \<^verbatim>\<open>null\<close>.
\<close>

theorem settle_runs_in_order_witness:
  "superEnd (Test_end (Some log_callback) log_test) = [log_handler]
   \<and> settle log_promises log_handler log_test Null (Some example_response) []
     = [''close'', ''await 1'', ''await 2'', ''check 1'', ''check 2'', ''callback null'']"
  using settle_runs_in_order
    [of log_promises log_handler log_test Null "Some example_response" "[]" Null,
     THEN conjunct1]
  by (simp add: log_promises_def log_handler_def log_test_def log_server_def logging_def
        log_callback_def assert_error_def assertFunction_def res_arg_def Test_end_def
        assert_loop.simps [of "[a, b]" for a b])

section \<open>A body argument that is undefined\<close>

lemma assert_loop_error:
  "err = Undefined \<or> instanceof_Error err \<Longrightarrow>
     fst (snd (assert_loop as res i err s)) = Undefined
     \<or> instanceof_Error (fst (snd (assert_loop as res i err s)))"
proof (induction as res i err s rule: assert_loop.induct)
  case (1 as res i err s)
  show ?case
  proof (cases "i < length as \<and> \<not> truthy err")
    case True
    obtain err' s' where a: "assertFunction (as ! i) res s = (err', s')"
      by (cases "assertFunction (as ! i) res s")
    have e: "err' = Undefined \<or> instanceof_Error err'"
      using a by (auto simp add: assertFunction_def Let_def split: prod.splits if_splits)
    have "assert_loop as res i err s = assert_loop as res (Suc i) err' s'"
      using True a by (intro assert_loop_step) simp_all
    moreover have "fst (snd (assert_loop as res (i + 1) err' s')) = Undefined
        \<or> instanceof_Error (fst (snd (assert_loop as res (i + 1) err' s')))"
      using True a e by (intro "1.IH") simp_all
    ultimately show ?thesis by simp
  next
    case False
    then have "assert_loop as res i err s = (i, err, s)"
      by (rule assert_loop_stop)
    then show ?thesis using "1.prems" by simp
  qed
qed

lemma assert_loop_reaches_failure:
  "j < length as \<Longrightarrow> i \<le> j
     \<Longrightarrow> (\<And>st. truthy (fst (assertFunction (as ! j) res st)))
     \<Longrightarrow> truthy (fst (snd (assert_loop as res i err s)))"
proof (induction as res i err s rule: assert_loop.induct)
  case (1 as res i err s)
  show ?case
  proof (cases "\<not> truthy err")
    case True
    obtain err' s' where a: "assertFunction (as ! i) res s = (err', s')"
      by (cases "assertFunction (as ! i) res s")
    have step: "assert_loop as res i err s = assert_loop as res (Suc i) err' s'"
      using True a "1.prems" by (intro assert_loop_step) simp_all
    show ?thesis
    proof (cases "i = j")
      case True
      have "truthy err'" using "1.prems"(3) [of s] a True by simp
      then have "assert_loop as res (Suc i) err' s' = (Suc i, err', s')"
        by (intro assert_loop_stop) simp
      then show ?thesis using step \<open>truthy err'\<close> by simp
    next
      case False
      have "truthy (fst (snd (assert_loop as res (i + 1) err' s')))"
        using \<open>\<not> truthy err\<close> a False "1.prems" by (intro "1.IH") simp_all
      then show ?thesis using step by simp
    qed
  next
    case False
    then have "assert_loop as res i err s = (i, err, s)"
      by (intro assert_loop_stop) simp
    then show ?thesis using False by simp
  qed
qed

lemma assertBody_Undefined:
  "assertBody d Undefined (Some r)
     = (if res_text r = None then Return Undefined
        else Return (error (''expected '' @ inspect d Undefined @ '' response body, got ''
                             @ inspect d (text_val (res_text r))) Undefined (body r)))"
  by (simp add: assertBody_def text_identical_def split: option.split)

text \<open>
  C10. \<^verbatim>\<open>expect(n, undefined)\<close>, with or without further arguments, appends the status
  assertion and a body assertion for \<^verbatim>\<open>undefined\<close>, where \<^verbatim>\<open>expect(n)\<close> appends the status
  assertion alone. With a response, that body assertion passes only when the text of the
  response is \<^verbatim>\<open>undefined\<close>; so when the text is a string, completion hands the callback
  an \<^verbatim>\<open>Error\<close> instance, whatever else is pending and whatever the transport error is.
\<close>

theorem expect_status_undefined_body:
  "asserts (expect d (Val (Number n) # Val Undefined # rest) t)
     = asserts t @ [bound (assertStatus d n), bound (assertBody d Undefined)]
   \<and> asserts (expect d [Val (Number n)] t) = asserts t @ [bound (assertStatus d n)]
   \<and> assertBody d Undefined (Some r)
     = (if res_text r = None then Return Undefined
        else Return (error (''expected '' @ inspect d Undefined @ '' response body, got ''
                             @ inspect d (text_val (res_text r))) Undefined (body r)))
   \<and> (res_text r \<noteq> None \<longrightarrow>
        instanceof_Error
          (fst (assert_error (asserts (expect d (Val (Number n) # Val Undefined # rest) t))
                  resError (Some r) s)))"
proof -
  let ?as = "asserts t @ [bound (assertStatus d n), bound (assertBody d Undefined)]"
  have a: "asserts (expect d (Val (Number n) # Val Undefined # rest) t) = ?as"
    by (simp add: expect_def arg_at_def Let_def Test_end_fields split: arg.split)
  have b: "asserts (expect d [Val (Number n)] t) = asserts t @ [bound (assertStatus d n)]"
    by (simp add: expect_def arg_at_def Let_def)
  have c: "instanceof_Error (fst (assert_error ?as resError (Some r) s))"
    if t: "res_text r \<noteq> None"
  proof -
    let ?e = "fst (snd (assert_loop ?as (Some r) 0 Undefined s))"
    have f: "truthy (fst (assertFunction (?as ! Suc (length (asserts t))) (Some r) st))" for st
      using t by (simp add: nth_append assertFunction_def bound_def assertBody_Undefined error_def)
    have "truthy ?e"
      by (rule assert_loop_reaches_failure [of "Suc (length (asserts t))"]) (simp_all add: f)
    moreover have "?e = Undefined \<or> instanceof_Error ?e"
      by (rule assert_loop_error) simp
    ultimately have "instanceof_Error ?e \<and> truthy ?e" by auto
    then show ?thesis
      by (simp add: assert_error_def case_prod_unfold)
  qed
  show ?thesis using a b c assertBody_Undefined [of d r] by simp
qed

text \<open>A response with status 200 and the text \<^verbatim>\<open>hello world\<close> fails on the body.\<close>

theorem expect_status_undefined_body_witness:
  "fst (assert_error (asserts (expect example_deps [Val (Number 200), Val Undefined] example_test))
          Null (Some example_response) (0, []))
     = Error ''Error'' ''expected undefined response body, got hello world''
         (Some Undefined) (Some (Object [(''a'', Number 1)])) (Some (Boolean True))
   \<and> instanceof_Error
       (fst (assert_error
               (asserts (expect example_deps [Val (Number 200), Val Undefined] example_test))
               Null (Some example_response) (0, [])))"
proof -
  note t = expect_status_undefined_body
    [of example_deps 200 "[]" example_test example_response Null "(0, [])"]
  have a: "asserts (expect example_deps [Val (Number 200), Val Undefined] example_test)
      = [bound (assertStatus example_deps 200), bound (assertBody example_deps Undefined)]"
    using t [THEN conjunct1] by (simp add: example_test_def)
  have i: "instanceof_Error
       (fst (assert_error
               (asserts (expect example_deps [Val (Number 200), Val Undefined] example_test))
               Null (Some example_response) (0, [])))"
    by (rule t [THEN conjunct2, THEN conjunct2, THEN conjunct2, rule_format])
      (simp add: example_response_def)
  have v: "fst (assert_error
              [bound (assertStatus example_deps 200), bound (assertBody example_deps Undefined)]
              Null (Some example_response) (0, []))
     = Error ''Error'' ''expected undefined response body, got hello world''
         (Some Undefined) (Some (Object [(''a'', Number 1)])) (Some (Boolean True))"
    by (simp add: assert_error_def assert_loop.simps [of "[a, b]" for a b] assertFunction_def
          bound_def assertStatus_def assertBody_Undefined error_def example_response_def
          example_deps_def text_val_def)
  show ?thesis using i v unfolding a by simp
qed

end
